theory Spec2Isabelle
  imports Main "HOL-Library.Word" "HOL-Library.Signed_Division"
begin

section \<open>IncomingVideoStream (webrtc/common_video/incoming_video_stream.cc)\<close>

text \<open>
  A shallow embedding of the class \<open>IncomingVideoStream\<close>. Every member function is a
  function from the object's state to its return value, the state afterwards and the
  list of calls it made, in program order, on its collaborators (the three critical
  sections, the clock, the render buffer, the timed event, the presentation thread
  object and the two callbacks). What a collaborator returns is an argument of the
  model: the clock reading of \<open>RenderFrame\<close>, the result of \<open>Wait\<close>, the result of
  \<open>new\<close>.
\<close>

subsection \<open>Machine types\<close>

type_synonym u16 = "16 word"
type_synonym u32 = "32 word"
type_synonym i32 = "32 word"
type_synonym i64 = "64 word"

text \<open>
  \<open>VideoRenderCallback*\<close> and \<open>rtc::PlatformThread*\<close> are addresses; the null pointer is
  \<open>None\<close>.
\<close>

type_synonym callback_ptr = nat
type_synonym thread_ptr = nat

text \<open>The result of \<open>EventTimerWrapper::Wait\<close>; the source names \<open>kEventError\<close>.\<close>

datatype EventTypeWrapper = kEventSignaled | kEventError | kEventTimeout

datatype ThreadPriority = kRealtimePriority

text \<open>The three critical sections of the object.\<close>

datatype critsect = stream_critsect | thread_critsect | buffer_critsect

text \<open>
  Two places end the process instead of returning:
  \<open>assert(incoming_render_thread == NULL)\<close> in \<open>Start\<close> when it fails, and the division
  of the rate in \<open>RenderFrame\<close> when it is undefined.
\<close>

datatype abort = AssertionFailed | DivisionFault

subsection \<open>Calls on the collaborators\<close>

datatype 'f event =
    Enter critsect
  | Leave critsect
  | MillisecondTimestamp
  | Buffer_AddFrame 'f
  | Buffer_FrameToRender
  | Buffer_TimeToNextFrameRelease
  | Buffer_SetRenderDelay i32
  | Buffer_ReleaseAllFrames
  | Event_Wait u32
  | Event_StartTimer bool u32
  | Event_StopTimer
  | Event_Set
  | Thread_reset "thread_ptr option"
  | Thread_release thread_ptr
  | Thread_Start thread_ptr
  | Thread_SetPriority thread_ptr ThreadPriority
  | Thread_Stop thread_ptr
  | Thread_delete thread_ptr
  | Callback_RenderFrame callback_ptr u32 'f

subsection \<open>What the header and the render buffer provide\<close>

text \<open>
  The class declaration (include/incoming_video_stream.h), \<open>VideoFrame\<close> and
  \<open>VideoRenderFrames\<close> are not part of the sources under study. The three constants of
  the header, the test \<open>VideoFrame::IsZeroSize\<close> and the five member functions of the render
  buffer that the class calls are therefore parameters of the model: \<open>'f\<close> is the type of
  frames and \<open>'b\<close> the state of the render buffer, and each buffer function returns its
  result with the buffer afterwards. The constants are held at the type in which the source
  uses them: the rate period is added to an \<open>int64_t\<close>, the two times are compared with
  and passed as a \<open>uint32_t\<close>.
\<close>

record ('f, 'b) collaborators =
  kEventStartupTimeMs :: u32
  kEventMaxWaitTimeMs :: u32
  kFrameRatePeriodMs :: i64
  IsZeroSize :: "'f \<Rightarrow> bool"
  AddFrame :: "'f \<Rightarrow> 'b \<Rightarrow> i32 \<times> 'b"
  FrameToRender :: "'b \<Rightarrow> 'f \<times> 'b"
  TimeToNextFrameRelease :: "'b \<Rightarrow> u32 \<times> 'b"
  SetRenderDelay :: "i32 \<Rightarrow> 'b \<Rightarrow> i32 \<times> 'b"
  ReleaseAllFrames :: "'b \<Rightarrow> i32 \<times> 'b"

subsection \<open>The object\<close>

text \<open>
  The data members, in the order of the constructor's initialiser list, each under its
  name in the source without the final underscore, which a name of Isabelle cannot end in.
  The event \<open>deliver_buffer_event_\<close> has no state of its own here: the calls on it are
  events. The source file fixes \<open>uint32_t\<close> for the stream id and for the rate (the cast
  in \<open>RenderFrame\<close> and the result of \<open>IncomingRate\<close>) and \<open>int64_t\<close> for the clock
  reading. The widths of the two other statistics members are declared in the header: the
  time of the last calculation is taken as \<open>int64_t\<close>, like the clock reading stored in
  it, and the frame counter as \<open>uint16_t\<close>.
\<close>

record 'b IncomingVideoStream =
  stream_id :: u32
  disable_prerenderer_smoothing :: bool
  incoming_render_thread :: "thread_ptr option"
  running :: bool
  external_callback :: "callback_ptr option"
  render_callback :: "callback_ptr option"
  render_buffers :: 'b
  incoming_rate :: u32
  last_rate_calculation_time_ms :: i64
  num_frames_since_last_calculation :: u16

text \<open>The constructor; \<open>b0\<close> is the buffer that \<open>new VideoRenderFrames()\<close> makes.\<close>

definition IncomingVideoStream_ctor :: "u32 \<Rightarrow> bool \<Rightarrow> 'b \<Rightarrow> 'b IncomingVideoStream" where
  "IncomingVideoStream_ctor sid disable b0 =
     \<lparr> stream_id = sid,
       disable_prerenderer_smoothing = disable,
       incoming_render_thread = None,
       running = False,
       external_callback = None,
       render_callback = None,
       render_buffers = b0,
       incoming_rate = 0,
       last_rate_calculation_time_ms = 0,
       num_frames_since_last_calculation = 0 \<rparr>"

subsection \<open>DeliverFrame\<close>

text \<open>
  The callbacks are called with \<open>stream_id\<close>; what they return is dropped. The object
  is not changed, so the function returns the calls only.
\<close>

definition DeliverFrame ::
  "('f, 'b) collaborators \<Rightarrow> 'f \<Rightarrow> 'b IncomingVideoStream \<Rightarrow> 'f event list" where
  "DeliverFrame env video_frame s =
     [Enter thread_critsect] @
     (if IsZeroSize env video_frame then []
      else (case external_callback s of
              Some cb \<Rightarrow> [Callback_RenderFrame cb (stream_id s) video_frame]
            | None \<Rightarrow>
                (case render_callback s of
                   Some cb \<Rightarrow> [Callback_RenderFrame cb (stream_id s) video_frame]
                 | None \<Rightarrow> []))) @
     [Leave thread_critsect]"

subsection \<open>RenderFrame\<close>

text \<open>
  The division of two \<open>int64_t\<close>: it truncates towards zero, and it is undefined, with no
  result, when the divisor is 0 or when the least \<open>int64_t\<close> is divided by -1.
\<close>

definition div_i64 :: "i64 \<Rightarrow> i64 \<Rightarrow> i64 option" where
  "div_i64 a b =
     (if sint b = 0 \<or> (sint a = - (2 ^ 63) \<and> sint b = - 1) then None
      else Some (word_of_int (sint a sdiv sint b)))"

text \<open>
  The rate statistics (lines 64 to 73). In the dividend the counter is promoted to \<open>int\<close>,
  where the product with 1000 is at most 65535000 and does not overflow, and then
  converted to \<open>int64_t\<close> for the division; \<open>static_cast<uint32_t>\<close> keeps the low 32
  bits of the quotient. The source does not test the divisor, so the call does not return
  when the division is undefined. The sum and the difference of \<open>int64_t\<close> wrap around.
\<close>

definition rate_statistics ::
  "('f, 'b) collaborators \<Rightarrow> i64 \<Rightarrow> 'b IncomingVideoStream
     \<Rightarrow> abort + 'b IncomingVideoStream" where
  "rate_statistics env now_ms s =
     (let s1 = s\<lparr> num_frames_since_last_calculation :=
                    num_frames_since_last_calculation s + 1 \<rparr>
      in if last_rate_calculation_time_ms s1 + kFrameRatePeriodMs env \<le>s now_ms
         then (case div_i64 (1000 * ucast (num_frames_since_last_calculation s1))
                            (now_ms - last_rate_calculation_time_ms s1) of
                 None \<Rightarrow> Inl DivisionFault
               | Some q \<Rightarrow>
                   Inr (s1\<lparr> incoming_rate := ucast q,
                            num_frames_since_last_calculation := 0,
                            last_rate_calculation_time_ms := now_ms \<rparr>))
         else Inr s1)"

text \<open>
  \<open>now_ms\<close> is what \<open>TickTime::MillisecondTimestamp()\<close> returns in this call. In bypass
  mode the frame goes to \<open>DeliverFrame\<close>; otherwise it is added to the buffer under the
  buffer lock and the event is set when \<open>AddFrame\<close> returns 1.
\<close>

definition RenderFrame ::
  "('f, 'b) collaborators \<Rightarrow> u32 \<Rightarrow> 'f \<Rightarrow> i64 \<Rightarrow> 'b IncomingVideoStream
     \<Rightarrow> abort + (i32 \<times> 'b IncomingVideoStream \<times> 'f event list)" where
  "RenderFrame env sid video_frame now_ms s =
     (if \<not> running s then Inr (- 1, s, [Enter stream_critsect, Leave stream_critsect])
      else
        (case rate_statistics env now_ms s of
           Inl a \<Rightarrow> Inl a
         | Inr s2 \<Rightarrow>
             if disable_prerenderer_smoothing s2
             then Inr (0, s2,
                       [Enter stream_critsect, MillisecondTimestamp] @
                       DeliverFrame env video_frame s2 @
                       [Leave stream_critsect])
             else
               (case AddFrame env video_frame (render_buffers s2) of
                  (n, b) \<Rightarrow>
                    Inr (0, s2\<lparr> render_buffers := b \<rparr>,
                         [Enter stream_critsect, MillisecondTimestamp,
                          Enter buffer_critsect, Buffer_AddFrame video_frame] @
                         (if n = 1 then [Event_Set] else []) @
                         [Leave buffer_critsect, Leave stream_critsect]))))"

text \<open>
  The calls of \<open>RenderFrame\<close> at which the elapsed time is zero although the test of the
  window passes: the sum of the test has wrapped around, or the period is not positive.
\<close>

definition elapsed_zero ::
  "('f, 'b) collaborators \<Rightarrow> i64 \<Rightarrow> 'b IncomingVideoStream \<Rightarrow> bool" where
  "elapsed_zero env now_ms s \<longleftrightarrow>
     last_rate_calculation_time_ms s + kFrameRatePeriodMs env \<le>s now_ms \<and>
     now_ms = last_rate_calculation_time_ms s"

subsection \<open>The setters\<close>

definition SetRenderCallback ::
  "callback_ptr option \<Rightarrow> 'b IncomingVideoStream \<Rightarrow> 'b IncomingVideoStream \<times> 'f event list" where
  "SetRenderCallback cb s =
     (s\<lparr> render_callback := cb \<rparr>, [Enter thread_critsect, Leave thread_critsect])"

definition SetExternalCallback ::
  "callback_ptr option \<Rightarrow> 'b IncomingVideoStream \<Rightarrow> 'b IncomingVideoStream \<times> 'f event list" where
  "SetExternalCallback cb s =
     (s\<lparr> external_callback := cb \<rparr>, [Enter thread_critsect, Leave thread_critsect])"

definition SetExpectedRenderDelay ::
  "('f, 'b) collaborators \<Rightarrow> i32 \<Rightarrow> 'b IncomingVideoStream
     \<Rightarrow> i32 \<times> 'b IncomingVideoStream \<times> 'f event list" where
  "SetExpectedRenderDelay env delay_ms s =
     (if running s then (- 1, s, [Enter stream_critsect, Leave stream_critsect])
      else
        (case SetRenderDelay env delay_ms (render_buffers s) of
           (r, b) \<Rightarrow>
             (r, s\<lparr> render_buffers := b \<rparr>,
              [Enter stream_critsect, Enter buffer_critsect, Buffer_SetRenderDelay delay_ms,
               Leave buffer_critsect, Leave stream_critsect])))"

subsection \<open>Start and Stop\<close>

text \<open>
  \<open>new_thread\<close> is what \<open>new rtc::PlatformThread(...)\<close> returns in this call. A failed
  assertion ends the process: there is no return value and no object any more.
\<close>

definition Start ::
  "('f, 'b) collaborators \<Rightarrow> thread_ptr option \<Rightarrow> 'b IncomingVideoStream
     \<Rightarrow> abort + (i32 \<times> 'b IncomingVideoStream \<times> 'f event list)" where
  "Start env new_thread s =
     (if running s then Inr (0, s, [Enter stream_critsect, Leave stream_critsect])
      else if \<not> disable_prerenderer_smoothing s then
        (if incoming_render_thread s \<noteq> None then Inl AssertionFailed
         else
           (case new_thread of
              None \<Rightarrow>
                Inr (- 1, s\<lparr> incoming_render_thread := None \<rparr>,
                     [Enter stream_critsect, Enter thread_critsect, Thread_reset None,
                      Leave thread_critsect, Leave stream_critsect])
            | Some t \<Rightarrow>
                Inr (0, s\<lparr> incoming_render_thread := Some t, running := True \<rparr>,
                     [Enter stream_critsect, Enter thread_critsect, Thread_reset (Some t),
                      Thread_Start t, Thread_SetPriority t kRealtimePriority,
                      Event_StartTimer False (kEventStartupTimeMs env),
                      Leave thread_critsect, Leave stream_critsect])))
      else Inr (0, s\<lparr> running := True \<rparr>, [Enter stream_critsect, Leave stream_critsect]))"

text \<open>
  The block of \<open>Stop\<close> that holds the thread lock (lines 142 to 153): it returns the
  local \<open>thread\<close>, the object and the calls made while the lock is held.
\<close>

definition Stop_signal ::
  "'b IncomingVideoStream \<Rightarrow> thread_ptr option \<times> 'b IncomingVideoStream \<times> 'f event list" where
  "Stop_signal s =
     (case incoming_render_thread s of
        None \<Rightarrow> (None, s, [Enter thread_critsect, Leave thread_critsect])
      | Some t \<Rightarrow>
          (Some t, s\<lparr> incoming_render_thread := None \<rparr>,
           [Enter thread_critsect, Thread_release t, Event_StopTimer, Event_Set,
            Leave thread_critsect]))"

definition Stop :: "'b IncomingVideoStream \<Rightarrow> i32 \<times> 'b IncomingVideoStream \<times> 'f event list" where
  "Stop s =
     (if \<not> running s then (0, s, [Enter stream_critsect, Leave stream_critsect])
      else
        (case Stop_signal s of
           (thread, s1, signalled) \<Rightarrow>
             (0, s1\<lparr> running := False \<rparr>,
              [Enter stream_critsect] @ signalled @
              (case thread of None \<Rightarrow> [] | Some t \<Rightarrow> [Thread_Stop t, Thread_delete t]) @
              [Leave stream_critsect])))"

subsection \<open>Reset and the accessors\<close>

definition Reset ::
  "('f, 'b) collaborators \<Rightarrow> 'b IncomingVideoStream
     \<Rightarrow> i32 \<times> 'b IncomingVideoStream \<times> 'f event list" where
  "Reset env s =
     (0, s\<lparr> render_buffers := snd (ReleaseAllFrames env (render_buffers s)) \<rparr>,
      [Enter buffer_critsect, Buffer_ReleaseAllFrames, Leave buffer_critsect])"

definition StreamId :: "'b IncomingVideoStream \<Rightarrow> u32" where
  "StreamId s = stream_id s"

definition IncomingRate :: "'b IncomingVideoStream \<Rightarrow> u32" where
  "IncomingRate s = incoming_rate s"

subsection \<open>The presentation loop\<close>

text \<open>
  One call of the thread function; the thread runs again when it returns true. \<open>waited\<close>
  is what \<open>deliver_buffer_event_->Wait(kEventMaxWaitTimeMs)\<close> returns in this call.
\<close>

definition IncomingVideoStreamProcess ::
  "('f, 'b) collaborators \<Rightarrow> EventTypeWrapper \<Rightarrow> 'b IncomingVideoStream
     \<Rightarrow> bool \<times> 'b IncomingVideoStream \<times> 'f event list" where
  "IncomingVideoStreamProcess env waited s =
     (if kEventError \<noteq> waited then
        (if incoming_render_thread s = None
         then (False, s,
               [Event_Wait (kEventMaxWaitTimeMs env), Enter thread_critsect,
                Leave thread_critsect])
         else
           (case FrameToRender env (render_buffers s) of
              (frame_to_render, b1) \<Rightarrow>
                (case TimeToNextFrameRelease env b1 of
                   (wait_time, b2) \<Rightarrow>
                     (let wait_time' =
                            (if wait_time > kEventMaxWaitTimeMs env
                             then kEventMaxWaitTimeMs env else wait_time);
                          s' = s\<lparr> render_buffers := b2 \<rparr>
                      in (True, s',
                          [Event_Wait (kEventMaxWaitTimeMs env), Enter thread_critsect,
                           Enter buffer_critsect, Buffer_FrameToRender,
                           Buffer_TimeToNextFrameRelease, Leave buffer_critsect,
                           Event_StartTimer False wait_time'] @
                          DeliverFrame env frame_to_render s' @
                          [Leave thread_critsect])))))
      else (True, s, [Event_Wait (kEventMaxWaitTimeMs env)]))"

definition IncomingVideoStreamThreadFun ::
  "('f, 'b) collaborators \<Rightarrow> EventTypeWrapper \<Rightarrow> 'b IncomingVideoStream
     \<Rightarrow> bool \<times> 'b IncomingVideoStream \<times> 'f event list" where
  "IncomingVideoStreamThreadFun env waited obj = IncomingVideoStreamProcess env waited obj"

subsection \<open>A render buffer and a frame type to run the model on\<close>

text \<open>
  Modelled from the spec: the render buffer (video_render_frames.cc) and the frame class are
  missing from the sources. Section 6 of the specification gives the buffer's interface:
  insertion returns the count after the insertion, the next frame to render is a frame or
  the empty sentinel, the delay until the following frame is a non-negative integer,
  setting the render delay reports success or failure, and a flush. The buffer below is a
  queue that meets this interface; the delay is 33 ms while a frame is queued and 250 ms
  when the queue is empty; a frame is the number of its pixels and the empty sentinel is
  0. It stands for the buffer only where a theorem is
  evaluated at a concrete input.
\<close>

definition queue_collaborators :: "(nat, nat list) collaborators" where
  "queue_collaborators =
     \<lparr> kEventStartupTimeMs = 10,
       kEventMaxWaitTimeMs = 100,
       kFrameRatePeriodMs = 1000,
       IsZeroSize = (\<lambda>f. f = 0),
       AddFrame = (\<lambda>f b. (word_of_nat (Suc (length b)), b @ [f])),
       FrameToRender = (\<lambda>b. case b of [] \<Rightarrow> (0, []) | f # fs \<Rightarrow> (f, fs)),
       TimeToNextFrameRelease = (\<lambda>b. (if b = [] then 250 else 33, b)),
       SetRenderDelay = (\<lambda>d b. (0, b)),
       ReleaseAllFrames = (\<lambda>b. (0, [])) \<rparr>"

text \<open>
  Two objects to evaluate at: stream 7 after a successful \<open>Start\<close>, in buffered mode with
  the presentation thread at address 1, and in bypass mode.
\<close>

definition buffered_running :: "nat list IncomingVideoStream" where
  "buffered_running =
     (IncomingVideoStream_ctor 7 False [])\<lparr> incoming_render_thread := Some 1, running := True \<rparr>"

definition bypass_running :: "nat list IncomingVideoStream" where
  "bypass_running = (IncomingVideoStream_ctor 7 True [])\<lparr> running := True \<rparr>"

subsection \<open>Reading a list of calls\<close>

text \<open>The callback invocations among the calls made: sink, stream id and frame, in order.\<close>

fun callbacks :: "'f event list \<Rightarrow> (callback_ptr \<times> u32 \<times> 'f) list" where
  "callbacks [] = []"
| "callbacks (Callback_RenderFrame cb sid f # es) = (cb, sid, f) # callbacks es"
| "callbacks (e # es) = callbacks es"

subsection \<open>Runs\<close>

text \<open>
  The life of an object: the constructor, then member calls and iterations of the
  presentation loop in some order, each with what its collaborators returned. Each call is
  taken whole here; a call that ends the process ends the run, which keeps the calls made
  before.
\<close>

datatype 'f call =
    Call_RenderFrame u32 'f i64
  | Call_SetRenderCallback "callback_ptr option"
  | Call_SetExpectedRenderDelay i32
  | Call_SetExternalCallback "callback_ptr option"
  | Call_Start "thread_ptr option"
  | Call_Stop
  | Call_Reset
  | Call_IncomingVideoStreamProcess EventTypeWrapper

fun step ::
  "('f, 'b) collaborators \<Rightarrow> 'f call \<Rightarrow> 'b IncomingVideoStream
     \<Rightarrow> abort + ('b IncomingVideoStream \<times> 'f event list)" where
  "step env (Call_RenderFrame sid f now_ms) s =
     (case RenderFrame env sid f now_ms s of Inl a \<Rightarrow> Inl a | Inr r \<Rightarrow> Inr (snd r))"
| "step env (Call_SetRenderCallback cb) s = Inr (SetRenderCallback cb s)"
| "step env (Call_SetExpectedRenderDelay d) s = Inr (snd (SetExpectedRenderDelay env d s))"
| "step env (Call_SetExternalCallback cb) s = Inr (SetExternalCallback cb s)"
| "step env (Call_Start new_thread) s =
     (case Start env new_thread s of Inl a \<Rightarrow> Inl a | Inr r \<Rightarrow> Inr (snd r))"
| "step env Call_Stop s = Inr (snd (Stop s))"
| "step env Call_Reset s = Inr (snd (Reset env s))"
| "step env (Call_IncomingVideoStreamProcess waited) s =
     Inr (snd (IncomingVideoStreamProcess env waited s))"

fun run ::
  "('f, 'b) collaborators \<Rightarrow> 'f call list \<Rightarrow> 'b IncomingVideoStream
     \<Rightarrow> 'b IncomingVideoStream \<times> 'f event list" where
  "run env [] s = (s, [])"
| "run env (c # cs) s =
     (case step env c s of
        Inl a \<Rightarrow> (s, [])
      | Inr (s', es) \<Rightarrow> (fst (run env cs s'), es @ snd (run env cs s')))"

section \<open>Properties\<close>

subsection \<open>The two example objects are reached by Start\<close>

lemma Start_reaches_buffered_running:
  "Start queue_collaborators (Some 1) (IncomingVideoStream_ctor 7 False []) =
     Inr (0, buffered_running,
          [Enter stream_critsect, Enter thread_critsect, Thread_reset (Some 1), Thread_Start 1,
           Thread_SetPriority 1 kRealtimePriority, Event_StartTimer False 10,
           Leave thread_critsect, Leave stream_critsect])"
  by (simp add: Start_def IncomingVideoStream_ctor_def buffered_running_def
      queue_collaborators_def)

lemma Start_reaches_bypass_running:
  "Start queue_collaborators None (IncomingVideoStream_ctor 7 True []) =
     Inr (0, bypass_running, [Enter stream_critsect, Leave stream_critsect])"
  by (simp add: Start_def IncomingVideoStream_ctor_def bypass_running_def)

subsection \<open>Calls and callbacks\<close>

lemma DeliverFrame_render_buffers [simp]:
  "DeliverFrame env f (s\<lparr> render_buffers := b \<rparr>) = DeliverFrame env f s"
  by (simp add: DeliverFrame_def split: option.split)

lemma callbacks_append [simp]: "callbacks (xs @ ys) = callbacks xs @ callbacks ys"
  by (induction xs rule: callbacks.induct) simp_all

subsection \<open>The arithmetic of the rate\<close>

text \<open>Reading the 64-bit arithmetic of the rate as arithmetic on integers.\<close>

lemma pow63: "(2 :: int) ^ 63 = 9223372036854775808" by simp
lemma pow32: "(2 :: int) ^ 32 = 4294967296" by simp
lemma pow64: "(2 :: int) ^ 64 = 18446744073709551616" by simp

lemma uint_u16_bound: "uint (n :: u16) < 65536"
  using uint_lt2p [of n] by simp

lemma sint_numerator:
  fixes n :: u16
  shows "sint (1000 * ucast n :: i64) = 1000 * uint n"
proof -
  have small: "1000 * uint n < 2 ^ 63"
    using uint_u16_bound [of n] unfolding pow63 by linarith
  have nonneg: "- (2 ^ 63) \<le> 1000 * uint n"
    using uint_ge_0 [of n] unfolding pow63 by linarith
  have u: "sint (ucast n :: i64) = uint n"
  proof -
    have "uint n < 2 ^ 63" using uint_u16_bound [of n] unfolding pow63 by linarith
    moreover have "- (2 ^ 63) \<le> uint n" using uint_ge_0 [of n] unfolding pow63 by linarith
    ultimately show ?thesis
      by (simp add: signed_ucast_eq signed_take_bit_int_eq_self)
  qed
  have "sint (1000 * ucast n :: i64) = signed_take_bit 63 (sint (1000 :: i64) * sint (ucast n :: i64))"
    by (simp add: sint_word_ariths)
  also have "\<dots> = signed_take_bit 63 (1000 * uint n)"
    by (simp add: u)
  also have "\<dots> = 1000 * uint n"
    using nonneg small by (rule signed_take_bit_int_eq_self)
  finally show ?thesis .
qed

lemma sdiv_nonneg:
  fixes k l :: int
  assumes "0 \<le> k" "0 < l"
  shows "k sdiv l = k div l"
  using assms by (cases "k = 0") (simp_all add: signed_divide_int_def)

lemma div_i64_dividend:
  fixes n :: u16 and d :: i64
  shows "div_i64 (1000 * ucast n) d =
           (if d = 0 then None else Some (word_of_int (1000 * uint n sdiv sint d)))"
proof -
  have "0 \<le> 1000 * uint n" by simp
  then have least: "sint (1000 * ucast n :: i64) \<noteq> - (2 ^ 63)"
    unfolding sint_numerator pow63 by linarith
  have zero: "(sint d = 0) = (d = 0)" by (rule signed_eq_0_iff)
  show ?thesis
    using least by (simp add: div_i64_def zero sint_numerator)
qed

lemma rate_quotient:
  fixes n :: u16 and d :: i64
  assumes "0 < sint d" and "div_i64 (1000 * ucast n) d = Some quot"
  shows "uint (ucast quot :: u32) = (1000 * uint n) div sint d"
proof -
  define q where "q = (1000 * uint n) div sint d"
  have q0: "0 \<le> q" using assms(1) by (simp add: q_def pos_imp_zdiv_nonneg_iff)
  have "q \<le> (1000 * uint n) div 1"
    unfolding q_def using assms(1) by (intro zdiv_mono2) simp_all
  then have qb: "q < 4294967296" using uint_u16_bound [of n] by simp
  have q32: "q < 2 ^ 32" using qb unfolding pow32 .
  have q64: "q < 2 ^ 64" using qb unfolding pow64 by linarith
  have "d \<noteq> 0" using assms(1) by auto
  then have "quot = word_of_int q"
    using assms by (simp add: div_i64_dividend sdiv_nonneg q_def)
  then have "(ucast quot :: u32) = ucast (word_of_int q :: i64)"
    by simp
  also have "\<dots> = word_of_int (take_bit 64 q)"
    by (simp add: unsigned_of_int)
  also have "take_bit 64 q = q" using q0 q64 by (simp add: take_bit_int_eq_self)
  finally have "uint (ucast quot :: u32) = take_bit 32 q"
    by (simp add: uint_word_of_int_eq)
  also have "\<dots> = q" using q0 q32 by (simp add: take_bit_int_eq_self)
  finally show ?thesis by (simp add: q_def)
qed

lemma sint_add_i64:
  fixes a b :: i64
  assumes "- (2 ^ 63) \<le> sint a + sint b" "sint a + sint b < 2 ^ 63"
  shows "sint (a + b) = sint a + sint b"
  using assms by (simp add: sint_word_ariths signed_take_bit_int_eq_self)

lemma sint_diff_i64:
  fixes a b :: i64
  assumes "- (2 ^ 63) \<le> sint a - sint b" "sint a - sint b < 2 ^ 63"
  shows "sint (a - b) = sint a - sint b"
  using assms by (simp add: sint_word_ariths signed_take_bit_int_eq_self)

lemma sint_i64_bounds: "- (2 ^ 63) \<le> sint (a :: i64)" "sint (a :: i64) < 2 ^ 63"
  using sint_ge [of a] sint_lt [of a] by simp_all


lemma window_reached_iff:
  fixes last_ms period now_ms :: i64
  assumes "0 < sint period" and "sint last_ms + sint period < 2 ^ 63"
  shows "(last_ms + period \<le>s now_ms) = (sint last_ms + sint period \<le> sint now_ms)"
proof -
  have "- (2 ^ 63) \<le> sint last_ms + sint period"
    using sint_i64_bounds(1) [of last_ms] assms(1) by linarith
  then have "sint (last_ms + period) = sint last_ms + sint period"
    using assms(2) by (rule sint_add_i64)
  then show ?thesis by (simp add: word_sle_eq)
qed

lemma elapsed_positive:
  fixes last_ms period now_ms :: i64
  assumes "0 < sint period" and "sint last_ms + sint period \<le> sint now_ms"
      and "sint now_ms - sint last_ms < 2 ^ 63"
  shows "sint (now_ms - last_ms) = sint now_ms - sint last_ms" and "0 < sint (now_ms - last_ms)"
proof -
  have "- (2 ^ 63) \<le> sint now_ms - sint last_ms"
    using assms(1,2) unfolding pow63 by linarith
  then show eq: "sint (now_ms - last_ms) = sint now_ms - sint last_ms"
    using assms(3) by (rule sint_diff_i64)
  show "0 < sint (now_ms - last_ms)"
    using assms(1,2) unfolding eq by linarith
qed

subsection \<open>When the rate statistics return\<close>

lemma rate_statistics_fault:
  "elapsed_zero env now_ms s \<Longrightarrow> rate_statistics env now_ms s = Inl DivisionFault"
  by (auto simp: rate_statistics_def elapsed_zero_def Let_def div_i64_dividend)

lemma rate_statistics_returns:
  "\<not> elapsed_zero env now_ms s \<Longrightarrow> \<exists>s2. rate_statistics env now_ms s = Inr s2"
  by (simp add: rate_statistics_def elapsed_zero_def Let_def div_i64_dividend)

lemma rate_statistics_other_members:
  assumes "rate_statistics env now_ms s = Inr s2"
  shows "stream_id s2 = stream_id s"
    and "disable_prerenderer_smoothing s2 = disable_prerenderer_smoothing s"
    and "incoming_render_thread s2 = incoming_render_thread s"
    and "running s2 = running s"
    and "external_callback s2 = external_callback s"
    and "render_callback s2 = render_callback s"
    and "render_buffers s2 = render_buffers s"
  using assms
  by (auto simp: rate_statistics_def Let_def split: if_splits option.splits)

lemma rate_statistics_members:
  assumes "rate_statistics env now_ms s = Inr s2"
  shows "if last_rate_calculation_time_ms s + kFrameRatePeriodMs env \<le>s now_ms
         then div_i64 (1000 * ucast (num_frames_since_last_calculation s + 1))
                      (now_ms - last_rate_calculation_time_ms s) \<noteq> None \<and>
              map_option ucast
                (div_i64 (1000 * ucast (num_frames_since_last_calculation s + 1))
                         (now_ms - last_rate_calculation_time_ms s)) = Some (incoming_rate s2) \<and>
              num_frames_since_last_calculation s2 = 0 \<and>
              last_rate_calculation_time_ms s2 = now_ms
         else incoming_rate s2 = incoming_rate s \<and>
              num_frames_since_last_calculation s2 = num_frames_since_last_calculation s + 1 \<and>
              last_rate_calculation_time_ms s2 = last_rate_calculation_time_ms s"
  using assms
  by (auto simp: rate_statistics_def Let_def split: if_splits option.splits)

lemma DeliverFrame_rate_statistics:
  assumes "rate_statistics env now_ms s = Inr s2"
  shows "DeliverFrame env f s2 = DeliverFrame env f s"
  using rate_statistics_other_members [OF assms]
  by (simp add: DeliverFrame_def split: option.split)

lemma RenderFrame_returns:
  assumes "running s" and "rate_statistics env now_ms s = Inr s2"
  shows "RenderFrame env sid f now_ms s =
           (if disable_prerenderer_smoothing s
            then Inr (0, s2,
                      [Enter stream_critsect, MillisecondTimestamp] @
                      DeliverFrame env f s @ [Leave stream_critsect])
            else Inr (0, s2\<lparr> render_buffers := snd (AddFrame env f (render_buffers s)) \<rparr>,
                      [Enter stream_critsect, MillisecondTimestamp,
                       Enter buffer_critsect, Buffer_AddFrame f] @
                      (if fst (AddFrame env f (render_buffers s)) = 1 then [Event_Set] else []) @
                      [Leave buffer_critsect, Leave stream_critsect]))"
  using assms rate_statistics_other_members(2,7) [OF assms(2)]
    DeliverFrame_rate_statistics [OF assms(2), of f]
  by (simp add: RenderFrame_def split: prod.split)

text \<open>
  A call of \<open>RenderFrame\<close> on a running object at which the elapsed time is zero although
  the test of the window passes does not return, and calls neither the buffer nor a
  callback. Such a call exists: the clock reading is the stored time, 4 below the largest
  \<open>int64_t\<close>, so that the sum of the test wraps around.
\<close>

lemma RenderFrame_division_fault:
  "running s \<Longrightarrow> elapsed_zero env now_ms s \<Longrightarrow>
     RenderFrame env sid f now_ms s = Inl DivisionFault"
  by (simp add: RenderFrame_def rate_statistics_fault)

lemma RenderFrame_division_fault_example:
  "RenderFrame queue_collaborators 3 5 9223372036854775804
     (buffered_running\<lparr> last_rate_calculation_time_ms := 9223372036854775804 \<rparr>) =
   Inl DivisionFault"
  by (rule RenderFrame_division_fault)
     (simp_all add: elapsed_zero_def buffered_running_def IncomingVideoStream_ctor_def
        queue_collaborators_def)

subsection \<open>Ingestion while stopped\<close>

text \<open>
  C2. A call of \<open>RenderFrame\<close> on an object that is not running returns -1 and leaves the
  whole object as it was, so the frame counter, the time of the last rate calculation, the
  rate and the render buffer are unchanged; the only calls it makes are taking and leaving
  the stream lock, so no callback is called and nothing is added to the buffer.
\<close>

theorem RenderFrame_not_running:
  assumes "\<not> running s"
  shows "RenderFrame env sid video_frame now_ms s =
           Inr (- 1, s, [Enter stream_critsect, Leave stream_critsect])"
  using assms by (simp add: RenderFrame_def)

theorem RenderFrame_not_running_witness:
  "\<not> running (IncomingVideoStream_ctor 7 False ([] :: nat list)) \<and>
   RenderFrame queue_collaborators 3 (640 * 480) 5000 (IncomingVideoStream_ctor 7 False []) =
     Inr (- 1, IncomingVideoStream_ctor 7 False [],
          [Enter stream_critsect, Leave stream_critsect])"
  using RenderFrame_not_running
    [of "IncomingVideoStream_ctor 7 False []" queue_collaborators 3 "640 * 480" 5000]
  by (simp add: IncomingVideoStream_ctor_def)

subsection \<open>Buffered ingestion\<close>

text \<open>
  C3. A call of \<open>RenderFrame\<close> on a running object in buffered mode, at which the elapsed
  time is not zero when the test of the window passes, returns 0; the object afterwards
  is the one the rate statistics leave, with the render buffer that \<open>AddFrame\<close> leaves when
  given the frame; \<open>AddFrame\<close> is called once, under the buffer lock; the event is set,
  once, exactly when \<open>AddFrame\<close> returned 1, the count of an insertion into an empty
  buffer.
\<close>

theorem RenderFrame_buffered:
  assumes "running s" and "\<not> disable_prerenderer_smoothing s"
      and "\<not> elapsed_zero env now_ms s"
  shows "\<exists>s2 calls.
           rate_statistics env now_ms s = Inr s2 \<and>
           RenderFrame env sid video_frame now_ms s =
             Inr (0, s2\<lparr> render_buffers := snd (AddFrame env video_frame (render_buffers s)) \<rparr>,
                  calls) \<and>
           calls =
             [Enter stream_critsect, MillisecondTimestamp,
              Enter buffer_critsect, Buffer_AddFrame video_frame] @
             (if fst (AddFrame env video_frame (render_buffers s)) = 1 then [Event_Set] else []) @
             [Leave buffer_critsect, Leave stream_critsect] \<and>
           (Event_Set \<in> set calls \<longleftrightarrow>
              fst (AddFrame env video_frame (render_buffers s)) = 1)"
proof -
  obtain s2 where s2: "rate_statistics env now_ms s = Inr s2"
    using rate_statistics_returns [OF assms(3)] by blast
  show ?thesis
    using s2 RenderFrame_returns [OF assms(1) s2, of sid video_frame] assms(2)
    by simp
qed

theorem RenderFrame_buffered_witness:
  "running buffered_running \<and> \<not> disable_prerenderer_smoothing buffered_running \<and>
   \<not> elapsed_zero queue_collaborators 5 buffered_running \<and>
   RenderFrame queue_collaborators 3 (640 * 480) 5 buffered_running =
     Inr (0,
          buffered_running\<lparr> num_frames_since_last_calculation := 1,
                             render_buffers := [640 * 480] \<rparr>,
          [Enter stream_critsect, MillisecondTimestamp, Enter buffer_critsect,
           Buffer_AddFrame (640 * 480), Event_Set, Leave buffer_critsect,
           Leave stream_critsect]) \<and>
   \<not> elapsed_zero queue_collaborators 1000 (buffered_running\<lparr> render_buffers := [4] \<rparr>) \<and>
   RenderFrame queue_collaborators 3 5 1000 (buffered_running\<lparr> render_buffers := [4] \<rparr>) =
     Inr (0,
          buffered_running\<lparr> incoming_rate := 1, last_rate_calculation_time_ms := 1000,
                             render_buffers := [4, 5] \<rparr>,
          [Enter stream_critsect, MillisecondTimestamp, Enter buffer_critsect,
           Buffer_AddFrame 5, Leave buffer_critsect, Leave stream_critsect])"
proof -
  have on: "running buffered_running"
    and smooth: "\<not> disable_prerenderer_smoothing buffered_running"
    and on': "running (buffered_running\<lparr> render_buffers := [4] \<rparr>)"
    and smooth': "\<not> disable_prerenderer_smoothing (buffered_running\<lparr> render_buffers := [4] \<rparr>)"
    by (simp_all add: buffered_running_def IncomingVideoStream_ctor_def)
  have early: "\<not> elapsed_zero queue_collaborators 5 buffered_running"
    and due: "\<not> elapsed_zero queue_collaborators 1000 (buffered_running\<lparr> render_buffers := [4] \<rparr>)"
    by (simp_all add: elapsed_zero_def buffered_running_def IncomingVideoStream_ctor_def
        queue_collaborators_def)
  show ?thesis
    using on smooth early due
      RenderFrame_buffered [OF on smooth early, of 3 "640 * 480"]
      RenderFrame_buffered [OF on' smooth' due, of 3 5]
    by (auto simp: RenderFrame_def rate_statistics_def div_i64_def signed_divide_int_def
        Let_def buffered_running_def IncomingVideoStream_ctor_def queue_collaborators_def)
qed

subsection \<open>Start and Stop when there is nothing to do\<close>

text \<open>
  C4. \<open>Start\<close> on a running object returns 0, leaves the object as it was and calls
  nothing but the stream lock: no thread is made or started and no timer armed. \<open>Stop\<close> on
  an object that is not running does the same. So a second \<open>Start\<close> after one that
  returned 0, and a second \<open>Stop\<close> after any \<open>Stop\<close>, change nothing and return 0.
\<close>

theorem Start_Stop_idempotent:
  fixes env :: "('f, 'b) collaborators" and calls calls' :: "'f event list"
  shows
  "(running s \<longrightarrow>
      Start env new_thread s = Inr (0, s, [Enter stream_critsect, Leave stream_critsect])) \<and>
   (\<not> running s \<longrightarrow>
      Stop s = (0, s, [Enter stream_critsect, Leave stream_critsect :: 'f event])) \<and>
   (Start env new_thread s = Inr (0, s', calls) \<longrightarrow>
      Start env new_thread' s' = Inr (0, s', [Enter stream_critsect, Leave stream_critsect])) \<and>
   (Stop s = (r, s', calls') \<longrightarrow>
      Stop s' = (0, s', [Enter stream_critsect, Leave stream_critsect :: 'f event]))"
  by (auto simp: Start_def Stop_def Stop_signal_def split: if_splits option.splits)

theorem Start_Stop_idempotent_witness:
  "running buffered_running \<and>
   Start queue_collaborators (Some 2) buffered_running =
     Inr (0, buffered_running, [Enter stream_critsect, Leave stream_critsect]) \<and>
   \<not> running (IncomingVideoStream_ctor 7 False ([] :: nat list)) \<and>
   Stop (IncomingVideoStream_ctor 7 False ([] :: nat list)) =
     (0, IncomingVideoStream_ctor 7 False [],
      [Enter stream_critsect, Leave stream_critsect :: nat event]) \<and>
   Start queue_collaborators (Some 1) (IncomingVideoStream_ctor 7 False []) =
     Inr (0, buffered_running,
          [Enter stream_critsect, Enter thread_critsect, Thread_reset (Some 1), Thread_Start 1,
           Thread_SetPriority 1 kRealtimePriority, Event_StartTimer False 10,
           Leave thread_critsect, Leave stream_critsect]) \<and>
   Stop buffered_running =
     (0, IncomingVideoStream_ctor 7 False [],
      [Enter stream_critsect, Enter thread_critsect, Thread_release 1, Event_StopTimer,
       Event_Set, Leave thread_critsect, Thread_Stop 1, Thread_delete 1,
       Leave stream_critsect :: nat event])"
proof -
  have started: "Start queue_collaborators (Some 1) (IncomingVideoStream_ctor 7 False []) =
     Inr (0, buffered_running,
          [Enter stream_critsect, Enter thread_critsect, Thread_reset (Some 1), Thread_Start 1,
           Thread_SetPriority 1 kRealtimePriority, Event_StartTimer False 10,
           Leave thread_critsect, Leave stream_critsect])"
    by (rule Start_reaches_buffered_running)
  have stopped: "Stop buffered_running =
     (0, IncomingVideoStream_ctor 7 False [],
      [Enter stream_critsect, Enter thread_critsect, Thread_release 1, Event_StopTimer,
       Event_Set, Leave thread_critsect, Thread_Stop 1, Thread_delete 1,
       Leave stream_critsect :: nat event])"
    by (simp add: Stop_def Stop_signal_def buffered_running_def IncomingVideoStream_ctor_def)
  have on: "running buffered_running"
    by (simp add: buffered_running_def IncomingVideoStream_ctor_def)
  have off: "\<not> running (IncomingVideoStream_ctor 7 False ([] :: nat list))"
    by (simp add: IncomingVideoStream_ctor_def)
  note again = Start_Stop_idempotent
    [of buffered_running queue_collaborators "Some 2" "IncomingVideoStream_ctor 7 False []"
        "[]" "Some 2" 0
        "[Enter stream_critsect, Enter thread_critsect, Thread_release 1, Event_StopTimer,
          Event_Set, Leave thread_critsect, Thread_Stop 1, Thread_delete 1,
          Leave stream_critsect]"]
  note first = Start_Stop_idempotent
    [of "IncomingVideoStream_ctor 7 False ([] :: nat list)" queue_collaborators "Some 1"
        buffered_running
        "[Enter stream_critsect, Enter thread_critsect, Thread_reset (Some 1), Thread_Start 1,
          Thread_SetPriority 1 kRealtimePriority, Event_StartTimer False 10,
          Leave thread_critsect, Leave stream_critsect]"
        "Some 2" 0 "[]"]
  show ?thesis
    using on off started stopped again first by simp
qed

subsection \<open>Dispatch\<close>

text \<open>
  C5. The callbacks that \<open>DeliverFrame\<close> calls: none for a zero-size frame; otherwise the
  external callback alone, once, when it is set, whatever the render callback is; the
  render callback, once, when only it is set; none when neither is set. Each call passes
  the object's stream id and the frame. Both paths dispatch this way: a call of
  \<open>RenderFrame\<close> in bypass mode, at which the elapsed time is not zero when the test of
  the window passes, returns 0 and the callbacks it called are those of \<open>DeliverFrame\<close> on
  the frame given, and the callbacks called by an iteration of the presentation loop that
  reaches the buffer are those of \<open>DeliverFrame\<close> on the frame that \<open>FrameToRender\<close>
  returned.
\<close>

theorem DeliverFrame_callbacks:
  "(IsZeroSize env f \<longrightarrow> callbacks (DeliverFrame env f s) = []) \<and>
   (\<not> IsZeroSize env f \<and> external_callback s = Some ext \<longrightarrow>
      callbacks (DeliverFrame env f s) = [(ext, stream_id s, f)]) \<and>
   (\<not> IsZeroSize env f \<and> external_callback s = None \<and> render_callback s = Some rnd \<longrightarrow>
      callbacks (DeliverFrame env f s) = [(rnd, stream_id s, f)]) \<and>
   (external_callback s = None \<and> render_callback s = None \<longrightarrow>
      callbacks (DeliverFrame env f s) = []) \<and>
   (running s \<and> disable_prerenderer_smoothing s \<and> \<not> elapsed_zero env now_ms s \<longrightarrow>
      (\<exists>s' calls.
         RenderFrame env sid f now_ms s = Inr (0, s', calls) \<and>
         callbacks calls = callbacks (DeliverFrame env f s))) \<and>
   (waited \<noteq> kEventError \<and> incoming_render_thread s \<noteq> None \<longrightarrow>
      callbacks (snd (snd (IncomingVideoStreamProcess env waited s))) =
        callbacks (DeliverFrame env (fst (FrameToRender env (render_buffers s))) s))"
proof -
  have deliver: "callbacks (DeliverFrame env g s) =
      (if IsZeroSize env g then []
       else case external_callback s of
              Some cb \<Rightarrow> [(cb, stream_id s, g)]
            | None \<Rightarrow> (case render_callback s of
                         Some cb \<Rightarrow> [(cb, stream_id s, g)] | None \<Rightarrow> []))" for g
    by (simp add: DeliverFrame_def split: option.split)
  have bypass: "\<exists>s' calls.
         RenderFrame env sid f now_ms s = Inr (0, s', calls) \<and>
         callbacks calls = callbacks (DeliverFrame env f s)"
    if on: "running s" and direct: "disable_prerenderer_smoothing s"
      and nonzero: "\<not> elapsed_zero env now_ms s"
  proof -
    obtain s2 where s2: "rate_statistics env now_ms s = Inr s2"
      using rate_statistics_returns [OF nonzero] by blast
    show ?thesis
      using RenderFrame_returns [OF on s2, of sid f] direct by simp
  qed
  have buffered: "waited \<noteq> kEventError \<and> incoming_render_thread s \<noteq> None \<longrightarrow>
      callbacks (snd (snd (IncomingVideoStreamProcess env waited s))) =
        callbacks (DeliverFrame env (fst (FrameToRender env (render_buffers s))) s)"
    by (simp add: IncomingVideoStreamProcess_def Let_def split: prod.split)
  show ?thesis
  proof (intro conjI)
    show "running s \<and> disable_prerenderer_smoothing s \<and> \<not> elapsed_zero env now_ms s \<longrightarrow>
      (\<exists>s' calls.
         RenderFrame env sid f now_ms s = Inr (0, s', calls) \<and>
         callbacks calls = callbacks (DeliverFrame env f s))"
      using bypass by blast
  qed (use buffered in \<open>simp_all add: deliver\<close>)
qed

theorem DeliverFrame_callbacks_witness:
  "IsZeroSize queue_collaborators (0 :: nat) \<and>
   callbacks (DeliverFrame queue_collaborators 0
     (bypass_running\<lparr> external_callback := Some 20, render_callback := Some 10 \<rparr>)) = [] \<and>
   \<not> IsZeroSize queue_collaborators (5 :: nat) \<and>
   callbacks (DeliverFrame queue_collaborators 5
     (bypass_running\<lparr> external_callback := Some 20, render_callback := Some 10 \<rparr>)) =
     [(20, 7, 5)] \<and>
   callbacks (DeliverFrame queue_collaborators 5
     (bypass_running\<lparr> render_callback := Some 10 \<rparr>)) = [(10, 7, 5)] \<and>
   callbacks (DeliverFrame queue_collaborators 5 bypass_running) = [] \<and>
   \<not> elapsed_zero queue_collaborators 1000
     (bypass_running\<lparr> external_callback := Some 20, render_callback := Some 10 \<rparr>) \<and>
   (\<exists>s' calls.
      RenderFrame queue_collaborators 3 5 1000
        (bypass_running\<lparr> external_callback := Some 20, render_callback := Some 10 \<rparr>) =
        Inr (0, s', calls) \<and>
      callbacks calls = [(20, 7, 5)]) \<and>
   callbacks (snd (snd (IncomingVideoStreamProcess queue_collaborators kEventTimeout
     (buffered_running\<lparr> render_buffers := [5], render_callback := Some 10 \<rparr>)))) =
     [(10, 7, 5)]"
proof -
  let ?both = "bypass_running\<lparr> external_callback := Some 20, render_callback := Some 10 \<rparr>"
  let ?primary = "bypass_running\<lparr> render_callback := Some 10 \<rparr>"
  let ?loop = "buffered_running\<lparr> render_buffers := [5], render_callback := Some 10 \<rparr>"
  have sentinel: "IsZeroSize queue_collaborators (0 :: nat)"
    and frame: "\<not> IsZeroSize queue_collaborators (5 :: nat)"
    by (simp_all add: queue_collaborators_def)
  have members:
    "external_callback ?both = Some 20" "stream_id ?both = 7"
    "external_callback ?primary = None" "render_callback ?primary = Some 10"
    "stream_id ?primary = 7"
    "external_callback bypass_running = None" "render_callback bypass_running = None"
    "running ?both" "disable_prerenderer_smoothing ?both"
    "incoming_render_thread ?loop \<noteq> None"
    "external_callback ?loop = None" "render_callback ?loop = Some 10" "stream_id ?loop = 7"
    "render_buffers ?loop = [5]"
    by (simp_all add: bypass_running_def buffered_running_def IncomingVideoStream_ctor_def)
  have nonzero: "\<not> elapsed_zero queue_collaborators 1000 ?both"
    by (simp add: elapsed_zero_def bypass_running_def IncomingVideoStream_ctor_def
        queue_collaborators_def)
  have popped: "fst (FrameToRender queue_collaborators [5]) = 5"
    by (simp add: queue_collaborators_def)
  have empty: "callbacks (DeliverFrame queue_collaborators 0 ?both) = []"
    using DeliverFrame_callbacks [where env = queue_collaborators and f = 0 and s = ?both,
        THEN conjunct1] sentinel
    by blast
  have override: "callbacks (DeliverFrame queue_collaborators 5 ?both) = [(20, 7, 5)]"
    using DeliverFrame_callbacks [where env = queue_collaborators and f = 5 and s = ?both
        and ext = 20, THEN conjunct2, THEN conjunct1] frame members(1,2)
    by simp
  have primary: "callbacks (DeliverFrame queue_collaborators 5 ?primary) = [(10, 7, 5)]"
    using DeliverFrame_callbacks [where env = queue_collaborators and f = 5 and s = ?primary
        and rnd = 10, THEN conjunct2, THEN conjunct2, THEN conjunct1] frame members(3,4,5)
    by simp
  have neither: "callbacks (DeliverFrame queue_collaborators 5 bypass_running) = []"
    using DeliverFrame_callbacks [where env = queue_collaborators and f = 5
        and s = bypass_running,
        THEN conjunct2, THEN conjunct2, THEN conjunct2, THEN conjunct1] members(6,7)
    by blast
  have bypass: "\<exists>s' calls.
      RenderFrame queue_collaborators 3 5 1000 ?both = Inr (0, s', calls) \<and>
      callbacks calls = [(20, 7, 5)]"
    using DeliverFrame_callbacks [where env = queue_collaborators and f = 5 and s = ?both
        and sid = 3 and now_ms = 1000,
        THEN conjunct2, THEN conjunct2, THEN conjunct2, THEN conjunct2, THEN conjunct1]
      members(8,9) nonzero override
    by simp
  have loop_primary: "callbacks (DeliverFrame queue_collaborators 5 ?loop) = [(10, 7, 5)]"
    using DeliverFrame_callbacks [where env = queue_collaborators and f = 5 and s = ?loop
        and rnd = 10, THEN conjunct2, THEN conjunct2, THEN conjunct1] frame members(11,12,13)
    by simp
  have loop: "callbacks (snd (snd (IncomingVideoStreamProcess queue_collaborators
      kEventTimeout ?loop))) = [(10, 7, 5)]"
    using DeliverFrame_callbacks [where env = queue_collaborators and s = ?loop
        and waited = kEventTimeout,
        THEN conjunct2, THEN conjunct2, THEN conjunct2, THEN conjunct2, THEN conjunct2]
      members(10,14) popped loop_primary
    by simp
  show ?thesis
    using sentinel frame empty override primary neither nonzero bypass loop
    by (intro conjI)
qed

subsection \<open>The render delay\<close>

text \<open>
  C7. \<open>SetExpectedRenderDelay\<close> on a running object returns -1, leaves the object, and so
  the render buffer, as it was and does not call the buffer. On an object that is not
  running it calls \<open>SetRenderDelay\<close> of the buffer with the delay, under the buffer lock,
  returns what that call returns and keeps the buffer the call leaves.
\<close>

theorem SetExpectedRenderDelay_running:
  "(running s \<longrightarrow>
      SetExpectedRenderDelay env delay_ms s =
        (- 1, s, [Enter stream_critsect, Leave stream_critsect])) \<and>
   (\<not> running s \<longrightarrow>
      SetExpectedRenderDelay env delay_ms s =
        (fst (SetRenderDelay env delay_ms (render_buffers s)),
         s\<lparr> render_buffers := snd (SetRenderDelay env delay_ms (render_buffers s)) \<rparr>,
         [Enter stream_critsect, Enter buffer_critsect, Buffer_SetRenderDelay delay_ms,
          Leave buffer_critsect, Leave stream_critsect]))"
  by (simp add: SetExpectedRenderDelay_def split: prod.split)

theorem SetExpectedRenderDelay_running_witness:
  "running buffered_running \<and>
   SetExpectedRenderDelay queue_collaborators 40 buffered_running =
     (- 1, buffered_running, [Enter stream_critsect, Leave stream_critsect]) \<and>
   \<not> running (IncomingVideoStream_ctor 7 False ([] :: nat list)) \<and>
   fst (SetExpectedRenderDelay queue_collaborators 40 (IncomingVideoStream_ctor 7 False [])) = 0"
  using SetExpectedRenderDelay_running [of buffered_running queue_collaborators 40]
    SetExpectedRenderDelay_running
      [of "IncomingVideoStream_ctor 7 False []" queue_collaborators 40]
  by (simp add: buffered_running_def IncomingVideoStream_ctor_def queue_collaborators_def)

subsection \<open>The presentation loop\<close>

text \<open>
  After a wait that did not return the error result, the iterations that do not end the
  loop are those that find the thread handle stored.
\<close>

lemma IncomingVideoStreamProcess_continues_iff:
  "waited \<noteq> kEventError \<Longrightarrow>
     fst (IncomingVideoStreamProcess env waited s) = (incoming_render_thread s \<noteq> None)"
  by (simp add: IncomingVideoStreamProcess_def Let_def split: prod.split)

text \<open>
  C8. An iteration of the presentation loop whose wait did not return the error result and
  that finds the thread handle stored does not end the loop (the thread function returns
  true). It calls \<open>FrameToRender\<close> and then \<open>TimeToNextFrameRelease\<close> under the buffer
  lock, then starts the timer, not periodic, with the delay that \<open>TimeToNextFrameRelease\<close>
  returned when that is at most \<open>kEventMaxWaitTimeMs\<close> and with \<open>kEventMaxWaitTimeMs\<close>
  otherwise, and only then hands the frame to \<open>DeliverFrame\<close>.
\<close>

theorem IncomingVideoStreamProcess_rearms:
  assumes "waited \<noteq> kEventError"
      and "incoming_render_thread s \<noteq> None"
      and "popped = FrameToRender env (render_buffers s)"
      and "queried = TimeToNextFrameRelease env (snd popped)"
  shows "IncomingVideoStreamProcess env waited s =
           (True, s\<lparr> render_buffers := snd queried \<rparr>,
            [Event_Wait (kEventMaxWaitTimeMs env), Enter thread_critsect,
             Enter buffer_critsect, Buffer_FrameToRender, Buffer_TimeToNextFrameRelease,
             Leave buffer_critsect,
             Event_StartTimer False
               (if fst queried \<le> kEventMaxWaitTimeMs env then fst queried
                else kEventMaxWaitTimeMs env)] @
            DeliverFrame env (fst popped) s @ [Leave thread_critsect]) \<and>
         IncomingVideoStreamThreadFun env waited s = IncomingVideoStreamProcess env waited s"
proof (intro conjI)
  have clamp: "(if w > c then c else w) = (if w \<le> c then w else c)" for w c :: u32
    by auto
  show "IncomingVideoStreamProcess env waited s =
           (True, s\<lparr> render_buffers := snd queried \<rparr>,
            [Event_Wait (kEventMaxWaitTimeMs env), Enter thread_critsect,
             Enter buffer_critsect, Buffer_FrameToRender, Buffer_TimeToNextFrameRelease,
             Leave buffer_critsect,
             Event_StartTimer False
               (if fst queried \<le> kEventMaxWaitTimeMs env then fst queried
                else kEventMaxWaitTimeMs env)] @
            DeliverFrame env (fst popped) s @ [Leave thread_critsect])"
    using assms
    by (simp add: IncomingVideoStreamProcess_def Let_def clamp split: prod.split)
  show "IncomingVideoStreamThreadFun env waited s = IncomingVideoStreamProcess env waited s"
    by (simp add: IncomingVideoStreamThreadFun_def)
qed

theorem IncomingVideoStreamProcess_rearms_witness:
  "kEventTimeout \<noteq> kEventError \<and> kEventSignaled \<noteq> kEventError \<and>
   incoming_render_thread
     (buffered_running\<lparr> render_buffers := [5], render_callback := Some 10 \<rparr>) \<noteq> None \<and>
   IncomingVideoStreamProcess queue_collaborators kEventTimeout
       (buffered_running\<lparr> render_buffers := [5], render_callback := Some 10 \<rparr>) =
     (True, buffered_running\<lparr> render_buffers := [], render_callback := Some 10 \<rparr>,
      [Event_Wait 100, Enter thread_critsect, Enter buffer_critsect, Buffer_FrameToRender,
       Buffer_TimeToNextFrameRelease, Leave buffer_critsect, Event_StartTimer False 100,
       Enter thread_critsect, Callback_RenderFrame 10 7 5, Leave thread_critsect,
       Leave thread_critsect]) \<and>
   incoming_render_thread
     (buffered_running\<lparr> render_buffers := [5, 6], render_callback := Some 10 \<rparr>) \<noteq> None \<and>
   IncomingVideoStreamProcess queue_collaborators kEventSignaled
       (buffered_running\<lparr> render_buffers := [5, 6], render_callback := Some 10 \<rparr>) =
     (True, buffered_running\<lparr> render_buffers := [6], render_callback := Some 10 \<rparr>,
      [Event_Wait 100, Enter thread_critsect, Enter buffer_critsect, Buffer_FrameToRender,
       Buffer_TimeToNextFrameRelease, Leave buffer_critsect, Event_StartTimer False 33,
       Enter thread_critsect, Callback_RenderFrame 10 7 5, Leave thread_critsect,
       Leave thread_critsect])"
proof -
  have timeout: "kEventTimeout \<noteq> kEventError" and signalled: "kEventSignaled \<noteq> kEventError"
    by simp_all
  have alive: "incoming_render_thread
     (buffered_running\<lparr> render_buffers := [5], render_callback := Some 10 \<rparr>) \<noteq> None"
    and alive': "incoming_render_thread
     (buffered_running\<lparr> render_buffers := [5, 6], render_callback := Some 10 \<rparr>) \<noteq> None"
    by (simp_all add: buffered_running_def IncomingVideoStream_ctor_def)
  show ?thesis
    using timeout signalled alive alive'
      IncomingVideoStreamProcess_rearms
        [OF timeout alive refl refl, where env = queue_collaborators]
      IncomingVideoStreamProcess_rearms
        [OF signalled alive' refl refl, where env = queue_collaborators]
    by (simp add: buffered_running_def IncomingVideoStream_ctor_def queue_collaborators_def
        DeliverFrame_def)
qed

text \<open>
  C9. When the wait returns the error result, the iteration does nothing after the wait:
  it takes no lock, does not look at the thread handle, calls neither the buffer nor the
  timer nor a callback, leaves the object as it was, and the thread function returns true,
  so the loop goes on.
\<close>

theorem IncomingVideoStreamProcess_wait_error:
  "IncomingVideoStreamProcess env kEventError s =
     (True, s, [Event_Wait (kEventMaxWaitTimeMs env)]) \<and>
   IncomingVideoStreamThreadFun env kEventError s =
     (True, s, [Event_Wait (kEventMaxWaitTimeMs env)])"
  by (simp add: IncomingVideoStreamProcess_def IncomingVideoStreamThreadFun_def)

subsection \<open>The rate statistics\<close>

text \<open>
  C6. A call of \<open>RenderFrame\<close> on a running object, at which the elapsed time is not zero
  when the test of the window passes, returns 0 and adds one to the frame counter. If the
  clock reading has reached the time of the last calculation plus \<open>kFrameRatePeriodMs\<close>,
  the rate becomes 1000 times the counter so incremented, divided by the clock reading
  minus the time of the last calculation, the counter becomes 0 and the time of the last
  calculation becomes the clock reading; if not, the rate and the time of the last
  calculation stay and the counter keeps the increment. \<open>IncomingRate\<close> returns the stored
  rate. The comparison, the sum, the difference and the quotient are those of the 64-bit
  integers of the source and the counter is incremented as a 16-bit integer; when the
  period is positive and neither the sum nor the difference overflows, the comparison is
  the one of the integers and the rate is the integer quotient.
\<close>

theorem RenderFrame_rate_statistics:
  assumes "running s"
      and "\<not> elapsed_zero env now_ms s"
      and "n = num_frames_since_last_calculation s + 1"
      and "last_ms = last_rate_calculation_time_ms s"
  shows "\<exists>s' calls.
           RenderFrame env sid video_frame now_ms s = Inr (0, s', calls) \<and>
           (if last_ms + kFrameRatePeriodMs env \<le>s now_ms
            then map_option ucast (div_i64 (1000 * ucast n) (now_ms - last_ms)) =
                   Some (incoming_rate s') \<and>
                 num_frames_since_last_calculation s' = 0 \<and>
                 last_rate_calculation_time_ms s' = now_ms
            else incoming_rate s' = incoming_rate s \<and>
                 num_frames_since_last_calculation s' = n \<and>
                 last_rate_calculation_time_ms s' = last_ms) \<and>
           IncomingRate s' = incoming_rate s' \<and>
           (0 < sint (kFrameRatePeriodMs env) \<and>
            sint last_ms + sint (kFrameRatePeriodMs env) < 2 ^ 63 \<and>
            sint now_ms - sint last_ms < 2 ^ 63 \<longrightarrow>
              (last_ms + kFrameRatePeriodMs env \<le>s now_ms) =
                (sint last_ms + sint (kFrameRatePeriodMs env) \<le> sint now_ms) \<and>
              (sint last_ms + sint (kFrameRatePeriodMs env) \<le> sint now_ms \<longrightarrow>
                 uint (IncomingRate s') = 1000 * uint n div (sint now_ms - sint last_ms)))"
proof -
  obtain s2 where s2: "rate_statistics env now_ms s = Inr s2"
    using rate_statistics_returns [OF assms(2)] by blast
  define s' where
    "s' = (if disable_prerenderer_smoothing s then s2
           else s2\<lparr> render_buffers := snd (AddFrame env video_frame (render_buffers s)) \<rparr>)"
  have "\<exists>calls. RenderFrame env sid video_frame now_ms s = Inr (0, s', calls)"
    using RenderFrame_returns [OF assms(1) s2, of sid video_frame]
    by (cases "disable_prerenderer_smoothing s") (simp_all add: s'_def)
  then obtain calls where returned:
    "RenderFrame env sid video_frame now_ms s = Inr (0, s', calls)" ..
  have members:
    "incoming_rate s' = incoming_rate s2"
    "last_rate_calculation_time_ms s' = last_rate_calculation_time_ms s2"
    "num_frames_since_last_calculation s' = num_frames_since_last_calculation s2"
    by (simp_all add: s'_def)
  have words:
    "if last_ms + kFrameRatePeriodMs env \<le>s now_ms
     then div_i64 (1000 * ucast n) (now_ms - last_ms) \<noteq> None \<and>
          map_option ucast (div_i64 (1000 * ucast n) (now_ms - last_ms)) =
            Some (incoming_rate s') \<and>
          num_frames_since_last_calculation s' = 0 \<and>
          last_rate_calculation_time_ms s' = now_ms
     else incoming_rate s' = incoming_rate s \<and>
          num_frames_since_last_calculation s' = n \<and>
          last_rate_calculation_time_ms s' = last_ms"
    using rate_statistics_members [OF s2] by (simp add: members assms(3,4))
  have integers:
    "(last_ms + kFrameRatePeriodMs env \<le>s now_ms) =
       (sint last_ms + sint (kFrameRatePeriodMs env) \<le> sint now_ms) \<and>
     (sint last_ms + sint (kFrameRatePeriodMs env) \<le> sint now_ms \<longrightarrow>
        uint (IncomingRate s') = 1000 * uint n div (sint now_ms - sint last_ms))"
    if period: "0 < sint (kFrameRatePeriodMs env)"
      and sum: "sint last_ms + sint (kFrameRatePeriodMs env) < 2 ^ 63"
      and diff: "sint now_ms - sint last_ms < 2 ^ 63"
  proof (intro conjI impI)
    show reached: "(last_ms + kFrameRatePeriodMs env \<le>s now_ms) =
        (sint last_ms + sint (kFrameRatePeriodMs env) \<le> sint now_ms)"
      using period sum by (rule window_reached_iff)
    assume le: "sint last_ms + sint (kFrameRatePeriodMs env) \<le> sint now_ms"
    then obtain quot where quot: "div_i64 (1000 * ucast n) (now_ms - last_ms) = Some quot"
      and rate: "incoming_rate s' = ucast quot"
      using words reached by auto
    show "uint (IncomingRate s') = 1000 * uint n div (sint now_ms - sint last_ms)"
      using rate_quotient [OF elapsed_positive(2) [OF period le diff] quot]
        elapsed_positive(1) [OF period le diff]
      by (simp add: IncomingRate_def rate)
  qed
  have "(if last_ms + kFrameRatePeriodMs env \<le>s now_ms
            then map_option ucast (div_i64 (1000 * ucast n) (now_ms - last_ms)) =
                   Some (incoming_rate s') \<and>
                 num_frames_since_last_calculation s' = 0 \<and>
                 last_rate_calculation_time_ms s' = now_ms
            else incoming_rate s' = incoming_rate s \<and>
                 num_frames_since_last_calculation s' = n \<and>
                 last_rate_calculation_time_ms s' = last_ms) \<and>
           IncomingRate s' = incoming_rate s' \<and>
           (0 < sint (kFrameRatePeriodMs env) \<and>
            sint last_ms + sint (kFrameRatePeriodMs env) < 2 ^ 63 \<and>
            sint now_ms - sint last_ms < 2 ^ 63 \<longrightarrow>
              (last_ms + kFrameRatePeriodMs env \<le>s now_ms) =
                (sint last_ms + sint (kFrameRatePeriodMs env) \<le> sint now_ms) \<and>
              (sint last_ms + sint (kFrameRatePeriodMs env) \<le> sint now_ms \<longrightarrow>
                 uint (IncomingRate s') = 1000 * uint n div (sint now_ms - sint last_ms)))"
  proof (intro conjI)
    show "if last_ms + kFrameRatePeriodMs env \<le>s now_ms
            then map_option ucast (div_i64 (1000 * ucast n) (now_ms - last_ms)) =
                   Some (incoming_rate s') \<and>
                 num_frames_since_last_calculation s' = 0 \<and>
                 last_rate_calculation_time_ms s' = now_ms
            else incoming_rate s' = incoming_rate s \<and>
                 num_frames_since_last_calculation s' = n \<and>
                 last_rate_calculation_time_ms s' = last_ms"
      using words by (simp split: if_splits)
    show "IncomingRate s' = incoming_rate s'" by (simp add: IncomingRate_def)
    show "0 < sint (kFrameRatePeriodMs env) \<and>
          sint last_ms + sint (kFrameRatePeriodMs env) < 2 ^ 63 \<and>
          sint now_ms - sint last_ms < 2 ^ 63 \<longrightarrow>
            (last_ms + kFrameRatePeriodMs env \<le>s now_ms) =
              (sint last_ms + sint (kFrameRatePeriodMs env) \<le> sint now_ms) \<and>
            (sint last_ms + sint (kFrameRatePeriodMs env) \<le> sint now_ms \<longrightarrow>
               uint (IncomingRate s') = 1000 * uint n div (sint now_ms - sint last_ms))"
      using integers by blast
  qed
  then show ?thesis using returned by blast
qed

theorem RenderFrame_rate_statistics_witness:
  "running (bypass_running\<lparr> num_frames_since_last_calculation := 29 \<rparr>) \<and>
   \<not> elapsed_zero queue_collaborators 1000
       (bypass_running\<lparr> num_frames_since_last_calculation := 29 \<rparr>) \<and>
   RenderFrame queue_collaborators 3 5 1000
       (bypass_running\<lparr> num_frames_since_last_calculation := 29 \<rparr>) =
     Inr (0,
          bypass_running\<lparr> incoming_rate := 30, last_rate_calculation_time_ms := 1000,
                           num_frames_since_last_calculation := 0 \<rparr>,
          [Enter stream_critsect, MillisecondTimestamp, Enter thread_critsect,
           Leave thread_critsect, Leave stream_critsect]) \<and>
   \<not> elapsed_zero queue_collaborators 999
       (bypass_running\<lparr> num_frames_since_last_calculation := 29 \<rparr>) \<and>
   RenderFrame queue_collaborators 3 5 999
       (bypass_running\<lparr> num_frames_since_last_calculation := 29 \<rparr>) =
     Inr (0,
          bypass_running\<lparr> num_frames_since_last_calculation := 30 \<rparr>,
          [Enter stream_critsect, MillisecondTimestamp, Enter thread_critsect,
           Leave thread_critsect, Leave stream_critsect]) \<and>
   (0 :: int) < sint (1000 :: i64) \<and>
   sint (0 :: i64) + sint (1000 :: i64) < 2 ^ 63 \<and>
   sint (1000 :: i64) - sint (0 :: i64) < 2 ^ 63 \<and>
   sint (0 :: i64) + sint (1000 :: i64) \<le> sint (1000 :: i64) \<and>
   uint (IncomingRate
      (bypass_running\<lparr> incoming_rate := 30, last_rate_calculation_time_ms := 1000,
                       num_frames_since_last_calculation := 0 \<rparr>)) =
     1000 * uint (30 :: u16) div (sint (1000 :: i64) - sint (0 :: i64))"
proof -
  have on: "running (bypass_running\<lparr> num_frames_since_last_calculation := 29 \<rparr>)"
    by (simp add: bypass_running_def IncomingVideoStream_ctor_def)
  have due: "\<not> elapsed_zero queue_collaborators 1000
       (bypass_running\<lparr> num_frames_since_last_calculation := 29 \<rparr>)"
    and early: "\<not> elapsed_zero queue_collaborators 999
       (bypass_running\<lparr> num_frames_since_last_calculation := 29 \<rparr>)"
    by (simp_all add: elapsed_zero_def bypass_running_def IncomingVideoStream_ctor_def
        queue_collaborators_def)
  note reached =
    RenderFrame_rate_statistics [OF on due refl refl, of 3 5]
  note before =
    RenderFrame_rate_statistics [OF on early refl refl, of 3 5]
  show ?thesis
    using on due early reached before
    by (auto simp: RenderFrame_def rate_statistics_def div_i64_def signed_divide_int_def
        Let_def DeliverFrame_def IncomingRate_def bypass_running_def
        IncomingVideoStream_ctor_def queue_collaborators_def)
qed

subsection \<open>Shutdown\<close>

text \<open>
  The object reached by \<open>Start\<close> in bypass mode is running and holds no thread handle. On
  it \<open>Stop\<close> returns 0 and clears \<open>running\<close>, but it neither stops the timer nor sets the
  event, and it joins and frees no thread: the guard on the stored handle skips all of it.
\<close>

theorem Stop_bypass_no_signal:
  "running bypass_running \<and>
   Stop bypass_running =
     (0, bypass_running\<lparr> running := False \<rparr>,
      [Enter stream_critsect, Enter thread_critsect, Leave thread_critsect,
       Leave stream_critsect :: nat event]) \<and>
   Event_StopTimer \<notin> set (snd (snd (Stop bypass_running)) :: nat event list) \<and>
   Event_Set \<notin> set (snd (snd (Stop bypass_running)) :: nat event list)"
  by (simp add: Stop_def Stop_signal_def bypass_running_def IncomingVideoStream_ctor_def)

text \<open>
  C1, amended. When \<open>Stop\<close> is called on a running object that holds a thread handle
  (buffered mode), it takes the thread lock, releases the handle, which leaves the stored
  handle null, then stops the timer, then sets the event once, and leaves the lock; after
  that it stops (joins) the thread, deletes it, clears \<open>running\<close> and returns 0. An
  iteration of the presentation loop whose wait did not return the error result and that
  finds the stored handle null, as it is from the moment the thread lock is left, ends the
  loop: the thread function returns false, leaves the object as it was and calls neither
  the buffer, the timer nor a callback. When \<open>Stop\<close> is called on a running object that
  holds no thread handle (bypass mode), it only clears \<open>running\<close> and returns 0.
\<close>

theorem Stop_shutdown_protocol:
  fixes env :: "('f, 'b) collaborators"
  shows
  "(running s \<and> incoming_render_thread s = Some t \<longrightarrow>
      Stop_signal s =
        (Some t, s\<lparr> incoming_render_thread := None \<rparr>,
         [Enter thread_critsect, Thread_release t, Event_StopTimer, Event_Set,
          Leave thread_critsect :: 'f event]) \<and>
      incoming_render_thread (fst (snd (Stop_signal s :: _ \<times> _ \<times> 'f event list))) = None \<and>
      Stop s =
        (0, s\<lparr> incoming_render_thread := None, running := False \<rparr>,
         [Enter stream_critsect, Enter thread_critsect, Thread_release t, Event_StopTimer,
          Event_Set, Leave thread_critsect, Thread_Stop t, Thread_delete t,
          Leave stream_critsect :: 'f event])) \<and>
   (waited \<noteq> kEventError \<and> incoming_render_thread s0 = None \<longrightarrow>
      IncomingVideoStreamThreadFun env waited s0 =
        (False, s0,
         [Event_Wait (kEventMaxWaitTimeMs env), Enter thread_critsect, Leave thread_critsect])) \<and>
   (running s \<and> incoming_render_thread s = None \<longrightarrow>
      Stop s =
        (0, s\<lparr> running := False \<rparr>,
         [Enter stream_critsect, Enter thread_critsect, Leave thread_critsect,
          Leave stream_critsect :: 'f event]))"
  by (simp add: Stop_def Stop_signal_def IncomingVideoStreamProcess_def
      IncomingVideoStreamThreadFun_def)

theorem Stop_shutdown_protocol_witness:
  "running buffered_running \<and> incoming_render_thread buffered_running = Some 1 \<and>
   Stop buffered_running =
     (0, IncomingVideoStream_ctor 7 False [],
      [Enter stream_critsect, Enter thread_critsect, Thread_release 1, Event_StopTimer,
       Event_Set, Leave thread_critsect, Thread_Stop 1, Thread_delete 1,
       Leave stream_critsect :: nat event]) \<and>
   kEventSignaled \<noteq> kEventError \<and>
   incoming_render_thread (buffered_running\<lparr> incoming_render_thread := None \<rparr>) = None \<and>
   IncomingVideoStreamThreadFun queue_collaborators kEventSignaled
       (buffered_running\<lparr> incoming_render_thread := None \<rparr>) =
     (False, buffered_running\<lparr> incoming_render_thread := None \<rparr>,
      [Event_Wait 100, Enter thread_critsect, Leave thread_critsect]) \<and>
   running bypass_running \<and> incoming_render_thread bypass_running = None \<and>
   Stop bypass_running =
     (0, IncomingVideoStream_ctor 7 True [],
      [Enter stream_critsect, Enter thread_critsect, Leave thread_critsect,
       Leave stream_critsect :: nat event])"
  using Stop_shutdown_protocol
    [of buffered_running 1 kEventSignaled
        "buffered_running\<lparr> incoming_render_thread := None \<rparr>" queue_collaborators]
    Stop_shutdown_protocol
    [of bypass_running 1 kEventSignaled
        "buffered_running\<lparr> incoming_render_thread := None \<rparr>" queue_collaborators]
  by (simp add: buffered_running_def bypass_running_def IncomingVideoStream_ctor_def
      queue_collaborators_def)

subsection \<open>The stream id\<close>

lemma RenderFrame_stream_id:
  assumes "RenderFrame env sid f now_ms s = Inr (r, s', es)"
  shows "stream_id s' = stream_id s"
    and "(cb, i, g) \<in> set (callbacks es) \<Longrightarrow> i = stream_id s"
proof -
  have "stream_id s' = stream_id s \<and> ((cb, i, g) \<in> set (callbacks es) \<longrightarrow> i = stream_id s)"
  proof (cases "running s")
    case False
    then show ?thesis using assms by (auto simp: RenderFrame_def)
  next
    case True
    then obtain s2 where s2: "rate_statistics env now_ms s = Inr s2"
      using assms by (auto simp: RenderFrame_def split: sum.splits)
    show ?thesis
      using assms RenderFrame_returns [OF True s2, of sid f]
        rate_statistics_other_members(1) [OF s2]
      by (auto simp: DeliverFrame_def split: if_splits option.splits)
  qed
  then show "stream_id s' = stream_id s"
    and "(cb, i, g) \<in> set (callbacks es) \<Longrightarrow> i = stream_id s"
    by simp_all
qed

lemma step_stream_id: "step env c s = Inr (s', es) \<Longrightarrow> stream_id s' = stream_id s"
  by (cases c)
     (auto simp: SetRenderCallback_def SetExpectedRenderDelay_def
        SetExternalCallback_def Start_def Stop_def Stop_signal_def Reset_def
        IncomingVideoStreamProcess_def Let_def
        split: if_splits prod.splits option.splits sum.splits
        dest: RenderFrame_stream_id(1))

lemma step_callback_ids:
  "step env c s = Inr (s', es) \<Longrightarrow> (cb, i, f) \<in> set (callbacks es) \<Longrightarrow> i = stream_id s"
  by (cases c)
     (auto simp: SetRenderCallback_def SetExpectedRenderDelay_def
        SetExternalCallback_def Start_def Stop_def Stop_signal_def Reset_def
        IncomingVideoStreamProcess_def DeliverFrame_def Let_def
        split: if_splits prod.splits option.splits sum.splits
        dest: RenderFrame_stream_id(2))

lemma run_stream_id: "stream_id (fst (run env cs s)) = stream_id s"
proof (induction cs arbitrary: s)
  case Nil
  show ?case by simp
next
  case (Cons c cs)
  show ?case
  proof (cases "step env c s")
    case (Inl a)
    then show ?thesis by simp
  next
    case (Inr r)
    obtain s' es where r: "r = (s', es)" by (cases r)
    have "step env c s = Inr (s', es)" using Inr r by simp
    then have "stream_id s' = stream_id s"
      by (rule step_stream_id)
    then show ?thesis
      using Inr r Cons.IH [of s'] by simp
  qed
qed

lemma run_callback_ids:
  "(cb, i, f) \<in> set (callbacks (snd (run env cs s))) \<Longrightarrow> i = stream_id s"
proof (induction cs arbitrary: s)
  case Nil
  then show ?case by simp
next
  case (Cons c cs)
  show ?case
  proof (cases "step env c s")
    case (Inl a)
    then show ?thesis using Cons.prems by simp
  next
    case (Inr r)
    obtain s' es where r: "r = (s', es)" by (cases r)
    have st: "step env c s = Inr (s', es)" using Inr r by simp
    have same: "stream_id s' = stream_id s"
      using st by (rule step_stream_id)
    have "(cb, i, f) \<in> set (callbacks es) \<or>
          (cb, i, f) \<in> set (callbacks (snd (run env cs s')))"
      using Cons.prems Inr r by simp
    then show ?thesis
    proof
      assume "(cb, i, f) \<in> set (callbacks es)"
      then show ?thesis by (rule step_callback_ids [OF st])
    next
      assume "(cb, i, f) \<in> set (callbacks (snd (run env cs s')))"
      then show ?thesis using Cons.IH [of s'] same by simp
    qed
  qed
qed

text \<open>
  C10. \<open>RenderFrame\<close> does not use its stream id argument: with any two values of it the
  result, the object afterwards and the calls made are the same. After any run from the
  constructor, \<open>StreamId\<close> returns the id given to the constructor, and every callback
  called during the run, from \<open>RenderFrame\<close> in bypass mode or from the presentation
  loop, was passed that id.
\<close>

theorem stream_id_of_construction:
  "RenderFrame env sid1 video_frame now_ms s = RenderFrame env sid2 video_frame now_ms s \<and>
   StreamId (fst (run env cs (IncomingVideoStream_ctor sid disable b0))) = sid \<and>
   (fst \<circ> snd) ` set (callbacks (snd (run env cs (IncomingVideoStream_ctor sid disable b0))))
     \<subseteq> {sid}"
proof (intro conjI)
  show "RenderFrame env sid1 video_frame now_ms s = RenderFrame env sid2 video_frame now_ms s"
    by (simp add: RenderFrame_def)
  show "StreamId (fst (run env cs (IncomingVideoStream_ctor sid disable b0))) = sid"
    by (simp add: StreamId_def run_stream_id IncomingVideoStream_ctor_def)
  show "(fst \<circ> snd) ` set (callbacks (snd (run env cs (IncomingVideoStream_ctor sid disable b0))))
     \<subseteq> {sid}"
  proof
    fix i
    assume "i \<in> (fst \<circ> snd) `
      set (callbacks (snd (run env cs (IncomingVideoStream_ctor sid disable b0))))"
    then obtain cb f where
      "(cb, i, f) \<in> set (callbacks (snd (run env cs (IncomingVideoStream_ctor sid disable b0))))"
      by auto
    then have "i = stream_id (IncomingVideoStream_ctor sid disable b0)"
      by (rule run_callback_ids)
    then show "i \<in> {sid}" by (simp add: IncomingVideoStream_ctor_def)
  qed
qed

theorem stream_id_of_construction_witness:
  "RenderFrame queue_collaborators 3 5 1000 bypass_running =
     RenderFrame queue_collaborators 99 5 1000 bypass_running \<and>
   StreamId (fst (run queue_collaborators
      [Call_SetRenderCallback (Some 10), Call_Start None, Call_RenderFrame 99 5 1000]
      (IncomingVideoStream_ctor 7 True []))) = 7 \<and>
   callbacks (snd (run queue_collaborators
      [Call_SetRenderCallback (Some 10), Call_Start None, Call_RenderFrame 99 5 1000]
      (IncomingVideoStream_ctor 7 True []))) = [(10, 7, 5)]"
  using stream_id_of_construction
    [of queue_collaborators 3 5 1000 bypass_running 99
        "[Call_SetRenderCallback (Some 10), Call_Start None, Call_RenderFrame 99 5 1000]"
        7 True "[]"]
  by (simp add: RenderFrame_def SetRenderCallback_def Start_def DeliverFrame_def
      IncomingVideoStream_ctor_def queue_collaborators_def rate_statistics_def Let_def
      div_i64_def signed_divide_int_def StreamId_def)

end
